theory Spec2Isabelle
  imports Complex_Main "HOL-Library.Sublist"
begin

section \<open>Exceptions\<close>

text \<open>
  The exception classes that matter to the supervision flow of \<^verbatim>\<open>actions.py\<close>. A call
  that may raise has a result of type \<open>py_exception + 'a\<close>: \<open>Inl e\<close> when \<open>e\<close> is raised,
  \<open>Inr v\<close> when \<open>v\<close> is returned. An \<^verbatim>\<open>except C\<close> clause catches the class \<open>C\<close> and
  nothing else; any other exception passes through to the caller.
  \<^item> \<open>SocketError\<close>: \<^verbatim>\<open>socket.error\<close> (that is \<^verbatim>\<open>OSError\<close>), what \<^verbatim>\<open>bind\<close> raises for
    a port that is taken.
  \<^item> \<open>OverflowError\<close>: what \<^verbatim>\<open>bind\<close> raises for a number outside 0..65535; it is not
    an \<^verbatim>\<open>OSError\<close>.
  \<^item> \<open>ProtocolError\<close>: \<^verbatim>\<open>urllib3.exceptions.ProtocolError\<close>, of which the
    \<^verbatim>\<open>ConnectionError\<close> that the module imports is an alias: a connection that was
    made and then broke.
  \<^item> \<open>MaxRetryError\<close>: \<^verbatim>\<open>urllib3.exceptions.MaxRetryError\<close>, what a request ends with
    when no connection can be made (nothing listens at the address); it is not a
    \<^verbatim>\<open>ProtocolError\<close>.
\<close>

datatype py_exception = SocketError | OverflowError | ProtocolError | MaxRetryError

section \<open>The port allocator\<close>

text \<open>
  \<^verbatim>\<open>find_available_port\<close> opens a socket per candidate port and tries to bind it to
  127.0.0.1. For a number in 0..65535 the operating system decides: the bind succeeds or
  raises \<^verbatim>\<open>socket.error\<close>; its answer is a parameter of the model. For any other
  number (the port is a Python \<^verbatim>\<open>int\<close>, unbounded) \<^verbatim>\<open>bind\<close> raises
  \<^verbatim>\<open>OverflowError\<close> before the operating system is asked.
\<close>

datatype bind_result = Bind_ok | Socket_error

definition s_bind :: "(int \<Rightarrow> bind_result) \<Rightarrow> int \<Rightarrow> py_exception + unit" where
  "s_bind os port =
     (if port < 0 \<or> 65535 < port then Inl OverflowError
      else (case os port of Bind_ok \<Rightarrow> Inr () | Socket_error \<Rightarrow> Inl SocketError))"

text \<open>
  The source loop is \<^verbatim>\<open>while True\<close> with no cap of its own, so the model is a partial
  function: \<open>None\<close> would stand for a scan that never ends. The \<^verbatim>\<open>except socket.error\<close>
  clause sends the scan to the next port; any other exception ends it.
\<close>

partial_function (option) find_available_port ::
  "(int \<Rightarrow> bind_result) \<Rightarrow> int \<Rightarrow> (py_exception + int) option" where
  "find_available_port os port =
     (case s_bind os port of
        Inr _ \<Rightarrow> Some (Inr port)
      | Inl e \<Rightarrow>
          if e = SocketError then find_available_port os (port + 1) else Some (Inl e))"

section \<open>Strings\<close>

text \<open>
  Python strings are modelled as \<open>string\<close> (lists of characters). \<^verbatim>\<open>a in b\<close> on two
  strings asks whether \<open>a\<close> occurs in \<open>b\<close> as a contiguous block.
\<close>

fun str_in :: "string \<Rightarrow> string \<Rightarrow> bool" where
  "str_in a [] = (a = [])"
| "str_in a (c # cs) = (prefix a (c # cs) \<or> str_in a cs)"

text \<open>\<^verbatim>\<open>str(n)\<close> on an integer: its decimal digits, with a minus sign below zero.\<close>

definition digit_char :: "nat \<Rightarrow> char" where
  "digit_char d = ''0123456789'' ! d"

fun str_nat :: "nat \<Rightarrow> string" where
  "str_nat n = (if n < 10 then [digit_char n] else str_nat (n div 10) @ [digit_char (n mod 10)])"

declare str_nat.simps [simp del]

definition str_int :: "int \<Rightarrow> string" where
  "str_int i = (if i < 0 then CHR ''-'' # str_nat (nat (- i)) else str_nat (nat i))"

text \<open>Reading a decimal string back, to say what "decimal" means.\<close>

definition digit_value :: "char \<Rightarrow> nat" where
  "digit_value c = of_char c - 48"

definition decimal_value :: "string \<Rightarrow> nat" where
  "decimal_value cs = foldl (\<lambda>acc c. 10 * acc + digit_value c) 0 cs"

section \<open>The world outside the module\<close>

text \<open>
  What the module asks of the operating system, the file system, the clock, the child
  process and the HTTP client is gathered in one record; every function of the module
  takes it as its first argument. The POST answers with a response or raises an
  exception; \<^verbatim>\<open>subprocess.run\<close> hands back a completed process. Console output
  (\<^verbatim>\<open>print\<close>) is not part of the model.

  The answers may change with time. One scan binds each port at most once, one call
  reads the clock and the log file once per poll iteration and posts at most once, so a
  function of the port, of the reading's number and of the iteration's number covers
  every course of events.
\<close>

record completed_process =
  returncode :: int
  stdout :: string
  stderr :: string

record http_response =
  status_code :: int
  body_text :: string

datatype post_result = Post_response http_response | Post_raises py_exception

record world =
  home_directory :: string
    \<comment> \<open>\<^verbatim>\<open>os.path.expanduser("~")\<close>\<close>
  os_path_join :: "string \<Rightarrow> string \<Rightarrow> string"
  pathlib_join :: "string \<Rightarrow> string \<Rightarrow> string"
    \<comment> \<open>\<^verbatim>\<open>str(Path(a) / b)\<close>\<close>
  module_dir :: string
    \<comment> \<open>\<^verbatim>\<open>Path(__file__).parent\<close>\<close>
  sys_executable :: string
  os_name :: string
  path_exists :: "string \<Rightarrow> bool"
  socket_bind :: "int \<Rightarrow> bind_result"
    \<comment> \<open>the operating system's answer to a bind of 127.0.0.1 and a port in 0..65535\<close>
  time_time :: "nat \<Rightarrow> real"
    \<comment> \<open>the successive readings of \<^verbatim>\<open>time.time()\<close>: reading 0 is \<^verbatim>\<open>start_time\<close>,
        reading \<open>Suc k\<close> is the one taken at the top of poll iteration \<open>k\<close>\<close>
  log_lines :: "string \<Rightarrow> nat \<Rightarrow> string list option"
    \<comment> \<open>the log file at a path as poll iteration \<open>k\<close> finds it: \<open>None\<close> when it does
        not exist, else what \<^verbatim>\<open>readlines()\<close> returns\<close>
  child_stdout :: string
  child_stderr :: string
    \<comment> \<open>what \<^verbatim>\<open>process.stdout.read().decode()\<close> and its stderr twin return\<close>
  http_post :: "string \<Rightarrow> (string \<times> string) list \<Rightarrow> post_result"
    \<comment> \<open>\<^verbatim>\<open>sema4ai_http.post(url, headers=...)\<close>\<close>
  subprocess_run :: "string list \<Rightarrow> string option \<Rightarrow> completed_process"
    \<comment> \<open>\<^verbatim>\<open>subprocess.run(cmd, capture_output=True, text=True, cwd=cwd)\<close>\<close>

text \<open>The effects that matter here: spawning a child, and issuing an HTTP POST.\<close>

datatype event =
  Popen "string list" nat
    \<comment> \<open>argv and \<^verbatim>\<open>creationflags\<close>\<close>
| Http_post string "(string \<times> string) list"
    \<comment> \<open>URL and headers\<close>

section \<open>run\_shell\_command\<close>

datatype exn = CalledProcessError int

datatype response = Response_result string | Response_error string

text \<open>\<^verbatim>\<open>CompletedProcess.check_returncode\<close> raises when the exit code is not zero.\<close>

definition check_returncode :: "completed_process \<Rightarrow> exn + unit" where
  "check_returncode r =
     (if returncode r \<noteq> 0 then Inl (CalledProcessError (returncode r)) else Inr ())"

text \<open>
  The \<^verbatim>\<open>try\<close> around \<^verbatim>\<open>check_returncode\<close> catches \<^verbatim>\<open>CalledProcessError\<close>, prints,
  and falls through to the \<^verbatim>\<open>return\<close>.
\<close>

definition run_shell_command :: "world \<Rightarrow> string list \<Rightarrow> string option \<Rightarrow> exn + response" where
  "run_shell_command w cmd cwd =
     (let result = subprocess_run w cmd cwd;
          output = (if stderr result \<noteq> [] then stdout result @ stderr result
                    else stdout result)
      in case check_returncode result of
           Inl (CalledProcessError _) \<Rightarrow> Inr (Response_result output)
         | Inr _ \<Rightarrow> Inr (Response_result output))"

section \<open>stop\_action\_server\<close>

text \<open>
  One POST to \<^verbatim>\<open>{url}/api/shutdown\<close>. The \<^verbatim>\<open>except ConnectionError\<close> clause catches
  \<open>ProtocolError\<close>; any other exception of the POST reaches the caller. The result is the
  effects, and the message returned or the exception raised.
\<close>

definition stop_action_server :: "world \<Rightarrow> string \<Rightarrow> event list \<times> (py_exception + string)" where
  "stop_action_server w action_server_url =
     (let headers = [(''Content-Type'', ''application/json'')];
          target = action_server_url @ ''/api/shutdown''
      in ([Http_post target headers],
          case http_post w target headers of
            Post_raises e \<Rightarrow>
              if e = ProtocolError then Inr ''Could not connect to the server'' else Inl e
          | Post_response r \<Rightarrow>
              if status_code r = 200 then Inr ''Successfully shutdown the action server''
              else Inr ''Failed to stop the action server''))"

section \<open>start\_action\_server\<close>

definition get_action_package_path :: "world \<Rightarrow> string \<Rightarrow> string" where
  "get_action_package_path w action_package_name =
     os_path_join w (os_path_join w (home_directory w) ''actions_bootstrapper'')
       action_package_name"

definition not_exist_message :: "string \<Rightarrow> string" where
  "not_exist_message full_action_path =
     ''Action package '' @ [CHR 0x27] @ full_action_path @ [CHR 0x27] @ '' does not exist.''"

definition started_message :: "string \<Rightarrow> string" where
  "started_message url = ''Action Server started at '' @ url"

definition stream_block :: "string \<Rightarrow> string \<Rightarrow> string" where
  "stream_block stdout_content stderr_content =
     [CHR 0x0A, CHR 0x0A] @ ''Stdout:'' @ [CHR 0x0A] @ stdout_content @
     [CHR 0x0A, CHR 0x0A] @ ''Stderr:'' @ [CHR 0x0A] @ stderr_content"

definition failed_message :: "string \<Rightarrow> string \<Rightarrow> string" where
  "failed_message stdout_content stderr_content =
     ''Failed to start.'' @ stream_block stdout_content stderr_content"

definition timed_out_message :: "string \<Rightarrow> string \<Rightarrow> string" where
  "timed_out_message stdout_content stderr_content =
     ''Process timed out.'' @ stream_block stdout_content stderr_content"

definition error_marker :: string where
  "error_marker = ''Error executing action-server''"

text \<open>
  The \<^verbatim>\<open>for line in lines\<close> loop of one poll iteration. \<open>Some msg\<close>: the function returns
  \<open>msg\<close> from inside the loop; \<open>None\<close>: the loop runs off the end of the lines. The URL is
  tested before the error marker, line by line.
\<close>

fun scan_lines :: "world \<Rightarrow> string \<Rightarrow> string list \<Rightarrow> string option" where
  "scan_lines w url [] = None"
| "scan_lines w url (line # lines) =
     (if str_in url line then Some (started_message url)
      else if str_in error_marker line
        then Some (failed_message (child_stdout w) (child_stderr w))
      else scan_lines w url lines)"

text \<open>
  The \<^verbatim>\<open>while True\<close> loop, iteration \<open>tick\<close> onward. It first compares the clock with the
  60-second timeout, then looks at the log file if there is one, then sleeps and goes
  round again. On timeout \<^verbatim>\<open>stop_action_server(url)\<close> is called outside any \<^verbatim>\<open>try\<close>:
  what it returns is dropped, what it raises ends the call. \<open>None\<close> stands for a loop
  that never returns.
\<close>

partial_function (option) poll_log ::
  "world \<Rightarrow> string \<Rightarrow> string \<Rightarrow> real \<Rightarrow> nat \<Rightarrow> (event list \<times> (py_exception + string)) option" where
  "poll_log w url log_path start_time tick =
     (if time_time w (Suc tick) - start_time > 60 then
        (case stop_action_server w url of
           (events, Inl e) \<Rightarrow> Some (events, Inl e)
         | (events, Inr _) \<Rightarrow>
             Some (events, Inr (timed_out_message (child_stdout w) (child_stderr w))))
      else
        (case log_lines w log_path tick of
           None \<Rightarrow> poll_log w url log_path start_time (Suc tick)
         | Some lines \<Rightarrow>
             (case scan_lines w url lines of
                Some msg \<Rightarrow> Some ([], Inr msg)
              | None \<Rightarrow> poll_log w url log_path start_time (Suc tick))))"

definition start_command :: "world \<Rightarrow> string \<Rightarrow> int \<Rightarrow> string \<Rightarrow> string list" where
  "start_command w full_action_path available_port secrets =
     [sys_executable w,
      pathlib_join w (module_dir w) ''start_action_server.py'',
      full_action_path,
      str_int available_port,
      secrets]"

definition creationflags :: "world \<Rightarrow> nat" where
  "creationflags w = (if os_name w = ''nt'' then 512 else 0)"

text \<open>
  The result is the list of effects performed and how the call ends: \<open>Some (Inr msg)\<close>
  when it returns \<open>msg\<close>, \<open>Some (Inl e)\<close> when it raises \<open>e\<close>, \<open>None\<close> when it never ends.
\<close>

definition start_action_server ::
  "world \<Rightarrow> string \<Rightarrow> string \<Rightarrow> event list \<times> (py_exception + string) option" where
  "start_action_server w action_package_name secrets =
     (let full_action_path = get_action_package_path w action_package_name in
      if \<not> path_exists w full_action_path then
        ([], Some (Inr (not_exist_message full_action_path)))
      else
        (case find_available_port (socket_bind w) 8080 of
           None \<Rightarrow> ([], None)
         | Some (Inl e) \<Rightarrow> ([], Some (Inl e))
         | Some (Inr available_port) \<Rightarrow>
             (let spawn = Popen (start_command w full_action_path available_port secrets)
                            (creationflags w);
                  start_time = time_time w 0;
                  url = ''http://localhost:'' @ str_int available_port;
                  log_path = pathlib_join w full_action_path ''action_server.log''
              in case poll_log w url log_path start_time 0 of
                   None \<Rightarrow> ([spawn], None)
                 | Some (events, outcome) \<Rightarrow> (spawn # events, Some outcome))))"

section \<open>Vocabulary for the statements\<close>

text \<open>
  Poll iteration \<open>j\<close> is quiet when it returns nothing: the clock has not passed the
  timeout and the log file is absent or holds no line with the URL or the error marker.
  These are exactly the iterations after which the loop sleeps and goes round again.
\<close>

definition quiet_tick :: "world \<Rightarrow> string \<Rightarrow> string \<Rightarrow> nat \<Rightarrow> bool" where
  "quiet_tick w url log_path j \<longleftrightarrow>
     time_time w (Suc j) - time_time w 0 \<le> 60 \<and>
     (case log_lines w log_path j of
        None \<Rightarrow> True
      | Some ls \<Rightarrow> \<forall>l\<in>set ls. \<not> str_in url l \<and> \<not> str_in error_marker l)"

text \<open>How many POSTs to the shutdown endpoint of \<open>url\<close> a list of effects holds.\<close>

definition shutdown_requests :: "string \<Rightarrow> event list \<Rightarrow> nat" where
  "shutdown_requests url events =
     length (filter (\<lambda>e. case e of Http_post target _ \<Rightarrow> target = url @ ''/api/shutdown''
                                | Popen _ _ \<Rightarrow> False) events)"

section \<open>Example worlds\<close>

text \<open>
  A concrete world for running the model: a POSIX machine where the package \<^verbatim>\<open>pkgA\<close>
  exists, port 8080 is taken and every other port is free, nothing listens for the
  shutdown request (the POST ends with \<open>MaxRetryError\<close>), and the clock jumps past the
  timeout after two readings.
\<close>

definition example_world :: world where
  "example_world =
     \<lparr>home_directory = ''/home/u'',
      os_path_join = (\<lambda>a b. a @ ''/'' @ b),
      pathlib_join = (\<lambda>a b. a @ ''/'' @ b),
      module_dir = ''/opt/bootstrapper'',
      sys_executable = ''python3'',
      os_name = ''posix'',
      path_exists = (\<lambda>p. p = ''/home/u/actions_bootstrapper/pkgA''),
      socket_bind = (\<lambda>p. if p = 8080 then Socket_error else Bind_ok),
      time_time = (\<lambda>k. if k \<le> 2 then real k else 100),
      log_lines = (\<lambda>p k. None),
      child_stdout = ''out'',
      child_stderr = ''err'',
      http_post = (\<lambda>u h. Post_raises MaxRetryError),
      subprocess_run = (\<lambda>cmd cwd. \<lparr>returncode = 0, stdout = [], stderr = []\<rparr>)\<rparr>"

definition example_log_path :: string where
  "example_log_path = ''/home/u/actions_bootstrapper/pkgA/action_server.log''"

text \<open>Variants of it: one log file per outcome of the poll loop.\<close>

definition ready_world :: world where
  "ready_world = example_world
     \<lparr>log_lines := (\<lambda>p k. if p = example_log_path \<and> k = 1
        then Some [''starting'', ''Action Server running at http://localhost:8081'',
                   ''Error executing action-server'']
        else None)\<rparr>"

definition failed_world :: world where
  "failed_world = example_world
     \<lparr>log_lines := (\<lambda>p k. if p = example_log_path \<and> k = 1
        then Some [''starting'', ''Error executing action-server'',
                   ''Action Server running at http://localhost:8081'']
        else None)\<rparr>"

definition both_world :: world where
  "both_world = example_world
     \<lparr>log_lines := (\<lambda>p k. if p = example_log_path \<and> k = 1
        then Some [''starting'',
                   ''Error executing action-server at http://localhost:8081'']
        else None)\<rparr>"

text \<open>A world where every port is taken and the clock stands still.\<close>

definition stuck_world :: world where
  "stuck_world = example_world
     \<lparr>socket_bind := (\<lambda>p. Socket_error), time_time := (\<lambda>k. 0)\<rparr>"

section \<open>Facts about the port allocator\<close>

lemma s_bind_cases:
  "s_bind os p = Inr () \<or> s_bind os p = Inl SocketError \<or> s_bind os p = Inl OverflowError"
  by (simp add: s_bind_def split: bind_result.split)

lemma s_bind_ok_range: "s_bind os p = Inr () \<Longrightarrow> 0 \<le> p \<and> p \<le> 65535"
  by (simp add: s_bind_def split: if_splits)

lemma s_bind_overflow_iff: "s_bind os p = Inl OverflowError \<longleftrightarrow> p < 0 \<or> 65535 < p"
  by (auto simp: s_bind_def split: bind_result.splits)

lemma find_available_port_free:
  "s_bind os port = Inr () \<Longrightarrow> find_available_port os port = Some (Inr port)"
  by (subst find_available_port.simps) simp

lemma find_available_port_bound:
  "s_bind os port = Inl SocketError \<Longrightarrow>
     find_available_port os port = find_available_port os (port + 1)"
  by (subst find_available_port.simps) simp

lemma find_available_port_overflow:
  "s_bind os port = Inl OverflowError \<Longrightarrow>
     find_available_port os port = Some (Inl OverflowError)"
  by (subst find_available_port.simps) simp

text \<open>The scan walks over a run of \<open>n\<close> taken ports without ending.\<close>

lemma find_available_port_skip:
  "(\<And>p. start \<le> p \<Longrightarrow> p < start + int n \<Longrightarrow> s_bind os p = Inl SocketError) \<Longrightarrow>
     find_available_port os start = find_available_port os (start + int n)"
proof (induction n arbitrary: start)
  case 0
  show ?case by simp
next
  case (Suc n)
  have "s_bind os start = Inl SocketError"
    using Suc.prems [of start] by simp
  then have "find_available_port os start = find_available_port os (start + 1)"
    by (rule find_available_port_bound)
  also have "\<dots> = find_available_port os (start + 1 + int n)"
  proof (rule Suc.IH)
    fix p
    assume "start + 1 \<le> p" and "p < start + 1 + int n"
    then show "s_bind os p = Inl SocketError"
      using Suc.prems [of p] by simp
  qed
  also have "start + 1 + int n = start + int (Suc n)"
    by simp
  finally show ?case .
qed

text \<open>The first free port at or above the start is what the scan returns.\<close>

lemma find_available_port_first:
  assumes free: "s_bind os q = Inr ()"
    and le: "start \<le> q"
    and bound: "\<And>p. start \<le> p \<Longrightarrow> p < q \<Longrightarrow> s_bind os p = Inl SocketError"
  shows "find_available_port os start = Some (Inr q)"
proof -
  have q: "q = start + int (nat (q - start))"
    using le by simp
  have "find_available_port os start = find_available_port os (start + int (nat (q - start)))"
  proof (rule find_available_port_skip)
    fix p
    assume "start \<le> p" and "p < start + int (nat (q - start))"
    then show "s_bind os p = Inl SocketError"
      using bound [of p] le by simp
  qed
  also have "\<dots> = find_available_port os q"
    using q by simp
  also have "\<dots> = Some (Inr q)"
    using free by (rule find_available_port_free)
  finally show ?thesis .
qed

text \<open>
  From a start that is not negative, a free port at or above it has a least free port
  below it, and every port in between is taken.
\<close>

lemma least_free_port:
  fixes start p :: int
  assumes "0 \<le> start" and "start \<le> p" and "s_bind os p = Inr ()"
  shows "\<exists>q. start \<le> q \<and> q \<le> p \<and> s_bind os q = Inr () \<and>
           (\<forall>r. start \<le> r \<and> r < q \<longrightarrow> s_bind os r = Inl SocketError)"
proof -
  define P where "P n \<longleftrightarrow> s_bind os (start + int n) = Inr ()" for n
  define m where "m = (LEAST n. P n)"
  have "P (nat (p - start))"
    using assms by (simp add: P_def)
  then have Pm: "P m" and m_le: "m \<le> nat (p - start)"
    unfolding m_def by (rule LeastI, rule Least_le)
  have below: "\<not> P n" if "n < m" for n
    using that not_less_Least unfolding m_def by blast
  have top: "p \<le> 65535"
    using assms(3) s_bind_ok_range by blast
  have "\<forall>r. start \<le> r \<and> r < start + int m \<longrightarrow> s_bind os r = Inl SocketError"
  proof (intro allI impI)
    fix r
    assume r: "start \<le> r \<and> r < start + int m"
    then have "nat (r - start) < m" by (auto simp: nat_less_iff)
    then have "\<not> P (nat (r - start))" by (rule below)
    then have free: "s_bind os r \<noteq> Inr ()"
      using r by (simp add: P_def)
    from m_le assms(2) have "int m \<le> p - start" by simp
    with r assms(1) top have "\<not> (r < 0 \<or> 65535 < r)" by simp
    then have "s_bind os r \<noteq> Inl OverflowError"
      by (simp add: s_bind_overflow_iff)
    with free show "s_bind os r = Inl SocketError"
      using s_bind_cases [of os r] by simp
  qed
  moreover have "s_bind os (start + int m) = Inr ()"
    using Pm by (simp add: P_def)
  moreover have "start + int m \<le> p"
    using m_le assms(2) by simp
  ultimately show ?thesis
    by (intro exI [of _ "start + int m"]) simp
qed

lemma find_available_port_returns:
  fixes start p :: int
  assumes "0 \<le> start" and "start \<le> p" and "s_bind os p = Inr ()"
  shows "\<exists>q. find_available_port os start = Some (Inr q)"
proof -
  from assms obtain q where "start \<le> q" "s_bind os q = Inr ()"
    "\<forall>r. start \<le> r \<and> r < q \<longrightarrow> s_bind os r = Inl SocketError"
    using least_free_port [of start p os] by blast
  then have "find_available_port os start = Some (Inr q)"
    by (intro find_available_port_first) simp_all
  then show ?thesis ..
qed

text \<open>
  However the scan ends, it ends well-behaved: a port it returns is free and at or above
  the start, and the only exception it lets through is \<open>OverflowError\<close>.
\<close>

lemma find_available_port_end:
  assumes ret: "find_available_port os start = Some r"
  shows "case r of Inr q \<Rightarrow> start \<le> q \<and> s_bind os q = Inr () | Inl e \<Rightarrow> e = OverflowError"
proof (rule find_available_port.raw_induct
    [where P = "\<lambda>os s r. case r of Inr q \<Rightarrow> s \<le> q \<and> s_bind os q = Inr ()
                              | Inl e \<Rightarrow> e = OverflowError", OF _ ret])
  fix f :: "(int \<Rightarrow> bind_result) \<Rightarrow> int \<Rightarrow> (py_exception + int) option"
    and os :: "int \<Rightarrow> bind_result" and port :: int and r :: "py_exception + int"
  assume IH: "\<And>os s r. f os s = Some r \<Longrightarrow>
      (case r of Inr q \<Rightarrow> s \<le> q \<and> s_bind os q = Inr () | Inl e \<Rightarrow> e = OverflowError)"
    and eq: "(case s_bind os port of
        Inr _ \<Rightarrow> Some (Inr port)
      | Inl e \<Rightarrow> if e = SocketError then f os (port + 1) else Some (Inl e)) = Some r"
  consider "s_bind os port = Inr ()" | "s_bind os port = Inl SocketError"
    | "s_bind os port = Inl OverflowError"
    using s_bind_cases by blast
  then show "case r of Inr q \<Rightarrow> port \<le> q \<and> s_bind os q = Inr () | Inl e \<Rightarrow> e = OverflowError"
  proof cases
    case 1
    with eq show ?thesis by auto
  next
    case 2
    with eq have "f os (port + 1) = Some r" by simp
    from IH [OF this] show ?thesis by (cases r) simp_all
  next
    case 3
    with eq show ?thesis by auto
  qed
qed

lemma find_available_port_sound:
  "find_available_port os start = Some (Inr q) \<Longrightarrow> start \<le> q \<and> s_bind os q = Inr ()"
  using find_available_port_end [of os start "Inr q"] by simp

lemma find_available_port_raised:
  "find_available_port os start = Some (Inl e) \<Longrightarrow> e = OverflowError"
  using find_available_port_end [of os start "Inl e"] by simp

lemma find_available_port_returns_nonneg:
  assumes "find_available_port os start = Some (Inr q)"
  shows "0 \<le> start"
proof (rule ccontr)
  assume "\<not> 0 \<le> start"
  then have "s_bind os start = Inl OverflowError"
    by (simp add: s_bind_overflow_iff)
  then have "find_available_port os start = Some (Inl OverflowError)"
    by (rule find_available_port_overflow)
  with assms show False by simp
qed

text \<open>The scan always ends: past 65535 the bind raises what the loop does not catch.\<close>

lemma find_available_port_ends: "\<exists>r. find_available_port os start = Some r"
proof (induction "nat (65536 - start)" arbitrary: start rule: less_induct)
  case less
  consider "s_bind os start = Inr ()" | "s_bind os start = Inl SocketError"
    | "s_bind os start = Inl OverflowError"
    using s_bind_cases by blast
  then show ?case
  proof cases
    case 1
    then show ?thesis by (simp add: find_available_port_free)
  next
    case 2
    then have "\<not> (start < 0 \<or> 65535 < start)"
      using s_bind_overflow_iff [of os start] by (auto simp: s_bind_def)
    then have "nat (65536 - (start + 1)) < nat (65536 - start)" by simp
    then have "\<exists>r. find_available_port os (start + 1) = Some r"
      by (rule less.hyps)
    with 2 show ?thesis by (simp add: find_available_port_bound)
  next
    case 3
    then show ?thesis by (simp add: find_available_port_overflow)
  qed
qed

text \<open>With every port from the start to 65535 taken, the scan ends at 65536.\<close>

lemma find_available_port_exhausted:
  assumes "0 \<le> start" and "start \<le> 65536"
    and taken: "\<And>p. start \<le> p \<Longrightarrow> p \<le> 65535 \<Longrightarrow> os p = Socket_error"
  shows "find_available_port os start = Some (Inl OverflowError)"
proof -
  have "find_available_port os start = find_available_port os (start + int (nat (65536 - start)))"
  proof (rule find_available_port_skip)
    fix p
    assume "start \<le> p" and "p < start + int (nat (65536 - start))"
    with assms(1,2) have "0 \<le> p" "p \<le> 65535" "os p = Socket_error"
      using taken [of p] by simp_all
    then show "s_bind os p = Inl SocketError"
      by (simp add: s_bind_def)
  qed
  also have "\<dots> = find_available_port os 65536"
    using assms(2) by simp
  also have "\<dots> = Some (Inl OverflowError)"
    by (rule find_available_port_overflow) (simp add: s_bind_def)
  finally show ?thesis .
qed

section \<open>Facts about run\_shell\_command\<close>

text \<open>The handler has work to do: a non-zero exit code does raise inside the \<^verbatim>\<open>try\<close>.\<close>

lemma check_returncode_raises:
  "returncode r \<noteq> 0 \<Longrightarrow> check_returncode r = Inl (CalledProcessError (returncode r))"
  by (simp add: check_returncode_def)

lemma check_returncode_passes:
  "returncode r = 0 \<Longrightarrow> check_returncode r = Inr ()"
  by (simp add: check_returncode_def)

section \<open>Facts about strings\<close>

lemma str_in_sublist: "str_in a b \<longleftrightarrow> sublist a b"
  by (induction b) (auto simp: sublist_Cons_right)

lemma digit_value_digit_char: "d < 10 \<Longrightarrow> digit_value (digit_char d) = d"
proof -
  assume "d < 10"
  then have "d \<in> {0, 1, 2, 3, 4, 5, 6, 7, 8, 9}" by auto
  then show ?thesis
    by (auto simp: digit_char_def digit_value_def)
qed

lemma decimal_value_snoc: "decimal_value (cs @ [c]) = 10 * decimal_value cs + digit_value c"
  by (simp add: decimal_value_def)

lemma decimal_value_str_nat: "decimal_value (str_nat n) = n"
proof (induction n rule: str_nat.induct)
  case (1 n)
  show ?case
  proof (cases "n < 10")
    case True
    then show ?thesis
      by (subst str_nat.simps) (simp add: decimal_value_def digit_value_digit_char)
  next
    case False
    with "1.IH" have "decimal_value (str_nat (n div 10)) = n div 10" by simp
    with False show ?thesis
      by (subst str_nat.simps) (simp add: decimal_value_snoc digit_value_digit_char)
  qed
qed

section \<open>Facts about stop\_action\_server\<close>

text \<open>Where the POST answers, or raises the exception that the handler catches.\<close>

lemma stop_action_server_answered:
  "http_post w (url @ ''/api/shutdown'') [(''Content-Type'', ''application/json'')] = Post_response r \<Longrightarrow>
     snd (stop_action_server w url) =
       Inr (if status_code r = 200 then ''Successfully shutdown the action server''
            else ''Failed to stop the action server'')"
  by (simp add: stop_action_server_def Let_def)

lemma stop_action_server_caught:
  "http_post w (url @ ''/api/shutdown'') [(''Content-Type'', ''application/json'')] = Post_raises ProtocolError \<Longrightarrow>
     snd (stop_action_server w url) = Inr ''Could not connect to the server''"
  by (simp add: stop_action_server_def Let_def)

lemma stop_action_server_uncaught:
  "http_post w (url @ ''/api/shutdown'') [(''Content-Type'', ''application/json'')] = Post_raises e \<Longrightarrow>
     e \<noteq> ProtocolError \<Longrightarrow> snd (stop_action_server w url) = Inl e"
  by (simp add: stop_action_server_def Let_def)

section \<open>Facts about the poll loop\<close>

lemma scan_lines_quiet:
  "\<forall>l\<in>set ls. \<not> str_in url l \<and> \<not> str_in error_marker l \<Longrightarrow> scan_lines w url ls = None"
  by (induction ls) simp_all

lemma scan_lines_started:
  "\<forall>l\<in>set pre. \<not> str_in error_marker l \<Longrightarrow> str_in url line \<Longrightarrow>
     scan_lines w url (pre @ line # post) = Some (started_message url)"
  by (induction pre) simp_all

lemma scan_lines_failed:
  "\<forall>l\<in>set pre. \<not> str_in url l \<Longrightarrow> \<not> str_in url line \<Longrightarrow> str_in error_marker line \<Longrightarrow>
     scan_lines w url (pre @ line # post) = Some (failed_message (child_stdout w) (child_stderr w))"
  by (induction pre) simp_all

lemma poll_log_quiet_step:
  assumes "quiet_tick w url log_path t"
  shows "poll_log w url log_path (time_time w 0) t = poll_log w url log_path (time_time w 0) (Suc t)"
proof (cases "log_lines w log_path t")
  case None
  with assms show ?thesis
    by (subst poll_log.simps) (simp add: quiet_tick_def)
next
  case (Some ls)
  with assms have "scan_lines w url ls = None"
    by (intro scan_lines_quiet) (simp add: quiet_tick_def)
  with Some assms show ?thesis
    by (subst poll_log.simps) (simp add: quiet_tick_def)
qed

lemma poll_log_quiet:
  "(\<And>j. t \<le> j \<Longrightarrow> j < t + n \<Longrightarrow> quiet_tick w url log_path j) \<Longrightarrow>
     poll_log w url log_path (time_time w 0) t = poll_log w url log_path (time_time w 0) (t + n)"
proof (induction n arbitrary: t)
  case 0
  show ?case by simp
next
  case (Suc n)
  have "quiet_tick w url log_path t"
    using Suc.prems [of t] by simp
  then have "poll_log w url log_path (time_time w 0) t =
      poll_log w url log_path (time_time w 0) (Suc t)"
    by (rule poll_log_quiet_step)
  also have "\<dots> = poll_log w url log_path (time_time w 0) (Suc t + n)"
  proof (rule Suc.IH)
    fix j
    assume "Suc t \<le> j" and "j < Suc t + n"
    then show "quiet_tick w url log_path j"
      using Suc.prems [of j] by simp
  qed
  finally show ?case by simp
qed

lemma poll_log_reach:
  assumes "\<forall>j<k. quiet_tick w url log_path j"
  shows "poll_log w url log_path (time_time w 0) 0 = poll_log w url log_path (time_time w 0) k"
  using poll_log_quiet [of 0 k w url log_path] assms by simp

lemma poll_log_timeout:
  assumes "time_time w (Suc k) - time_time w 0 > 60"
  shows "poll_log w url log_path (time_time w 0) k =
    (case stop_action_server w url of
       (events, Inl e) \<Rightarrow> Some (events, Inl e)
     | (events, Inr _) \<Rightarrow>
         Some (events, Inr (timed_out_message (child_stdout w) (child_stderr w))))"
  using assms by (subst poll_log.simps) simp

lemma poll_log_decided:
  assumes "time_time w (Suc k) - time_time w 0 \<le> 60"
    and "log_lines w log_path k = Some ls"
    and "scan_lines w url ls = Some msg"
  shows "poll_log w url log_path (time_time w 0) k = Some ([], Inr msg)"
  using assms by (subst poll_log.simps) simp

lemma start_action_server_spawned:
  assumes "path_exists w (get_action_package_path w name)"
    and "find_available_port (socket_bind w) 8080 = Some (Inr port)"
  shows "start_action_server w name secrets =
    (case poll_log w (''http://localhost:'' @ str_int port)
        (pathlib_join w (get_action_package_path w name) ''action_server.log'') (time_time w 0) 0 of
       None \<Rightarrow> ([Popen (start_command w (get_action_package_path w name) port secrets) (creationflags w)], None)
     | Some (events, outcome) \<Rightarrow>
         (Popen (start_command w (get_action_package_path w name) port secrets) (creationflags w) # events,
          Some outcome))"
  using assms by (simp add: start_action_server_def Let_def)

text \<open>The poll loop spawns nothing: its only effect is the shutdown request.\<close>

lemma stop_action_server_events:
  "fst (stop_action_server w url) =
     [Http_post (url @ ''/api/shutdown'') [(''Content-Type'', ''application/json'')]]"
  by (simp add: stop_action_server_def Let_def)

lemma poll_log_events:
  assumes ret: "poll_log w url log_path start_time tick = Some r"
  shows "fst r = [] \<or> fst r = fst (stop_action_server w url)"
proof (rule poll_log.raw_induct
    [where P = "\<lambda>w url log_path start_time tick r.
        fst r = [] \<or> fst r = fst (stop_action_server w url)", OF _ ret])
  fix f :: "world \<Rightarrow> string \<Rightarrow> string \<Rightarrow> real \<Rightarrow> nat \<Rightarrow> (event list \<times> (py_exception + string)) option"
    and w :: world and url log_path :: string and start_time :: real and tick :: nat
    and r :: "event list \<times> (py_exception + string)"
  assume IH: "\<And>w url log_path start_time tick r. f w url log_path start_time tick = Some r \<Longrightarrow>
      fst r = [] \<or> fst r = fst (stop_action_server w url)"
    and eq: "(if time_time w (Suc tick) - start_time > 60 then
        (case stop_action_server w url of
           (events, Inl e) \<Rightarrow> Some (events, Inl e)
         | (events, Inr _) \<Rightarrow>
             Some (events, Inr (timed_out_message (child_stdout w) (child_stderr w))))
      else
        (case log_lines w log_path tick of
           None \<Rightarrow> f w url log_path start_time (Suc tick)
         | Some lines \<Rightarrow>
             (case scan_lines w url lines of
                Some msg \<Rightarrow> Some ([], Inr msg)
              | None \<Rightarrow> f w url log_path start_time (Suc tick)))) = Some r"
  show "fst r = [] \<or> fst r = fst (stop_action_server w url)"
  proof (cases "time_time w (Suc tick) - start_time > 60")
    case True
    obtain events outcome where st: "stop_action_server w url = (events, outcome)"
      by (cases "stop_action_server w url")
    with eq True have "fst r = events"
      by (cases outcome) auto
    with st show ?thesis by simp
  next
    case late: False
    show ?thesis
    proof (cases "f w url log_path start_time (Suc tick) = Some r")
      case True
      then show ?thesis by (rule IH)
    next
      case False
      with eq late show ?thesis
        by (auto split: option.splits)
    qed
  qed
qed

lemma str_int_decimal: "0 \<le> i \<Longrightarrow> decimal_value (str_int i) = nat i"
  by (simp add: str_int_def decimal_value_str_nat)

section \<open>Evaluating the example worlds\<close>

lemmas example_simps =
  example_world_def example_log_path_def get_action_package_path_def start_command_def
  creationflags_def str_int_def str_nat.simps digit_char_def error_marker_def quiet_tick_def

lemma example_port:
  "find_available_port (\<lambda>p. if p = 8080 then Socket_error else Bind_ok) 8080 = Some (Inr 8081)"
  by (rule find_available_port_first) (simp_all add: s_bind_def)

section \<open>The specified properties\<close>

text \<open>
  C1. A start request whose resolved package directory does not exist returns the
  precondition-failure message (the text saying that the path does not exist) and
  performs no effect: no child is spawned. The equation holds in every world, also in
  those where the port scan would end with an exception or the poll loop would never
  return, so neither is reached.
\<close>

theorem start_action_server_missing_directory:
  assumes "\<not> path_exists w (get_action_package_path w name)"
  shows "start_action_server w name secrets =
    ([], Some (Inr (''Action package '' @ [CHR 0x27] @ get_action_package_path w name @
                    [CHR 0x27] @ '' does not exist.'')))"
  using assms by (simp add: start_action_server_def not_exist_message_def Let_def)

theorem start_action_server_missing_directory_witness:
  "find_available_port (socket_bind stuck_world) 8080 = Some (Inl OverflowError) \<and>
   start_action_server stuck_world ''missing'' ''{}'' =
     ([], Some (Inr (''Action package '' @ [CHR 0x27] @ ''/home/u/actions_bootstrapper/missing'' @
                     [CHR 0x27] @ '' does not exist.'')))"
proof -
  have scan: "find_available_port (socket_bind stuck_world) 8080 = Some (Inl OverflowError)"
    by (rule find_available_port_exhausted) (simp_all add: stuck_world_def example_world_def)
  have "\<not> path_exists stuck_world (get_action_package_path stuck_world ''missing'')"
    by (simp add: stuck_world_def example_simps)
  from start_action_server_missing_directory [OF this, of "''{}''"] scan show ?thesis
    by (simp add: stuck_world_def example_simps)
qed

text \<open>
  C2. If some poll iteration \<open>k\<close> is reached (every earlier one was quiet) before the
  timeout, and the log file then holds a line containing the expected URL with no line
  containing the error marker before it, the call returns
  \<^verbatim>\<open>Action Server started at {url}\<close>, whatever the other lines are.
\<close>

theorem start_action_server_ready:
  fixes w :: world and name secrets :: string and port :: int
  defines "full \<equiv> get_action_package_path w name"
  defines "url \<equiv> ''http://localhost:'' @ str_int port"
  defines "log_path \<equiv> pathlib_join w full ''action_server.log''"
  assumes "path_exists w full"
    and "find_available_port (socket_bind w) 8080 = Some (Inr port)"
    and "\<forall>j<k. quiet_tick w url log_path j"
    and "time_time w (Suc k) - time_time w 0 \<le> 60"
    and "log_lines w log_path k = Some (pre @ line # post)"
    and "str_in url line"
    and "\<forall>l\<in>set pre. \<not> str_in error_marker l"
  shows "start_action_server w name secrets =
    ([Popen (start_command w full port secrets) (creationflags w)],
     Some (Inr (''Action Server started at '' @ url)))"
proof -
  have "scan_lines w url (pre @ line # post) = Some (started_message url)"
    using assms(10,9) by (rule scan_lines_started)
  with assms(7,8) have "poll_log w url log_path (time_time w 0) k = Some ([], Inr (started_message url))"
    by (intro poll_log_decided)
  with assms(6) have "poll_log w url log_path (time_time w 0) 0 = Some ([], Inr (started_message url))"
    by (simp add: poll_log_reach)
  then show ?thesis
    using assms(4,5) unfolding full_def url_def log_path_def
    by (simp add: start_action_server_spawned started_message_def)
qed

theorem start_action_server_ready_witness:
  "start_action_server ready_world ''pkgA'' ''{}'' =
     ([Popen [''python3'', ''/opt/bootstrapper/start_action_server.py'',
              ''/home/u/actions_bootstrapper/pkgA'', ''8081'', ''{}''] 0],
      Some (Inr ''Action Server started at http://localhost:8081''))"
proof -
  have 1: "path_exists ready_world (get_action_package_path ready_world ''pkgA'')"
    by (simp add: ready_world_def example_simps)
  have 2: "find_available_port (socket_bind ready_world) 8080 = Some (Inr 8081)"
    by (simp add: ready_world_def example_world_def example_port)
  have 3: "\<forall>j<1. quiet_tick ready_world (''http://localhost:'' @ str_int 8081)
      (pathlib_join ready_world (get_action_package_path ready_world ''pkgA'') ''action_server.log'') j"
    by (simp add: ready_world_def example_simps)
  have 4: "time_time ready_world (Suc 1) - time_time ready_world 0 \<le> 60"
    by (simp add: ready_world_def example_simps)
  have 5: "log_lines ready_world
      (pathlib_join ready_world (get_action_package_path ready_world ''pkgA'') ''action_server.log'') 1
      = Some ([''starting''] @ ''Action Server running at http://localhost:8081'' #
              [''Error executing action-server''])"
    by (simp add: ready_world_def example_simps)
  have 6: "str_in (''http://localhost:'' @ str_int 8081) ''Action Server running at http://localhost:8081''"
    by (simp add: example_simps)
  have 7: "\<forall>l\<in>set [''starting'']. \<not> str_in error_marker l"
    by (simp add: example_simps)
  from start_action_server_ready [OF 1 2 3 4 5 6 7, of "''{}''"] show ?thesis
    by (simp add: ready_world_def example_simps)
qed

text \<open>
  C3. If at a poll iteration \<open>k\<close> reached before the timeout the log file holds a line
  containing the error marker, and neither that line nor any line before it contains the
  expected URL, the call returns the failure message with the child's stdout and stderr
  in it, and not the success message, whatever follows in the file (a line with the URL
  included).
\<close>

theorem start_action_server_failed:
  fixes w :: world and name secrets :: string and port :: int
  defines "full \<equiv> get_action_package_path w name"
  defines "url \<equiv> ''http://localhost:'' @ str_int port"
  defines "log_path \<equiv> pathlib_join w full ''action_server.log''"
  assumes "path_exists w full"
    and "find_available_port (socket_bind w) 8080 = Some (Inr port)"
    and "\<forall>j<k. quiet_tick w url log_path j"
    and "time_time w (Suc k) - time_time w 0 \<le> 60"
    and "log_lines w log_path k = Some (pre @ line # post)"
    and "str_in error_marker line"
    and "\<forall>l\<in>set (pre @ [line]). \<not> str_in url l"
  shows "start_action_server w name secrets =
      ([Popen (start_command w full port secrets) (creationflags w)],
       Some (Inr (''Failed to start.'' @ [CHR 0x0A, CHR 0x0A] @ ''Stdout:'' @ [CHR 0x0A] @
                  child_stdout w @
                  [CHR 0x0A, CHR 0x0A] @ ''Stderr:'' @ [CHR 0x0A] @ child_stderr w)))
    \<and> snd (start_action_server w name secrets) \<noteq> Some (Inr (''Action Server started at '' @ url))"
proof -
  have "scan_lines w url (pre @ line # post) =
      Some (failed_message (child_stdout w) (child_stderr w))"
    using assms(10,9) by (intro scan_lines_failed) simp_all
  with assms(7,8) have "poll_log w url log_path (time_time w 0) k =
      Some ([], Inr (failed_message (child_stdout w) (child_stderr w)))"
    by (intro poll_log_decided)
  with assms(6) have "poll_log w url log_path (time_time w 0) 0 =
      Some ([], Inr (failed_message (child_stdout w) (child_stderr w)))"
    by (simp add: poll_log_reach)
  then have "start_action_server w name secrets =
      ([Popen (start_command w full port secrets) (creationflags w)],
       Some (Inr (failed_message (child_stdout w) (child_stderr w))))"
    using assms(4,5) unfolding full_def url_def log_path_def
    by (simp add: start_action_server_spawned)
  then show ?thesis
    by (simp add: failed_message_def stream_block_def)
qed

theorem start_action_server_failed_witness:
  "start_action_server failed_world ''pkgA'' ''{}'' =
     ([Popen [''python3'', ''/opt/bootstrapper/start_action_server.py'',
              ''/home/u/actions_bootstrapper/pkgA'', ''8081'', ''{}''] 0],
      Some (Inr (''Failed to start.'' @ [CHR 0x0A, CHR 0x0A] @ ''Stdout:'' @ [CHR 0x0A] @ ''out'' @
                 [CHR 0x0A, CHR 0x0A] @ ''Stderr:'' @ [CHR 0x0A] @ ''err'')))"
proof -
  have 1: "path_exists failed_world (get_action_package_path failed_world ''pkgA'')"
    by (simp add: failed_world_def example_simps)
  have 2: "find_available_port (socket_bind failed_world) 8080 = Some (Inr 8081)"
    by (simp add: failed_world_def example_world_def example_port)
  have 3: "\<forall>j<1. quiet_tick failed_world (''http://localhost:'' @ str_int 8081)
      (pathlib_join failed_world (get_action_package_path failed_world ''pkgA'') ''action_server.log'') j"
    by (simp add: failed_world_def example_simps)
  have 4: "time_time failed_world (Suc 1) - time_time failed_world 0 \<le> 60"
    by (simp add: failed_world_def example_simps)
  have 5: "log_lines failed_world
      (pathlib_join failed_world (get_action_package_path failed_world ''pkgA'') ''action_server.log'') 1
      = Some ([''starting''] @ ''Error executing action-server'' #
              [''Action Server running at http://localhost:8081''])"
    by (simp add: failed_world_def example_simps)
  have 6: "str_in error_marker ''Error executing action-server''"
    by (simp add: example_simps)
  have 7: "\<forall>l\<in>set ([''starting''] @ [''Error executing action-server'']).
      \<not> str_in (''http://localhost:'' @ str_int 8081) l"
    by (simp add: example_simps)
  from start_action_server_failed [OF 1 2 3 4 5 6 7, of "''{}''"] show ?thesis
    by (simp add: failed_world_def example_simps)
qed

text \<open>
  C4. The specification: with no marker in the log file before the timeout, the call returns the
  timeout message and attempts one shutdown request. The code sends the request, but
  \<^verbatim>\<open>stop_action_server(url)\<close> stands outside any \<^verbatim>\<open>try\<close> and its own handler catches
  \<open>ProtocolError\<close> only. In the example world nothing listens at the candidate URL (the
  usual state of affairs when a start times out), the POST ends with \<open>MaxRetryError\<close>,
  and the call raises it after the one request instead of returning the timeout
  message.
\<close>

theorem start_action_server_timed_out_unreachable:
  "start_action_server example_world ''pkgA'' ''{}'' =
     ([Popen [''python3'', ''/opt/bootstrapper/start_action_server.py'',
              ''/home/u/actions_bootstrapper/pkgA'', ''8081'', ''{}''] 0,
       Http_post ''http://localhost:8081/api/shutdown'' [(''Content-Type'', ''application/json'')]],
      Some (Inl MaxRetryError))
   \<and> shutdown_requests ''http://localhost:8081''
         (fst (start_action_server example_world ''pkgA'' ''{}'')) = 1"
proof -
  let ?url = "''http://localhost:'' @ str_int 8081"
  let ?log = "pathlib_join example_world (get_action_package_path example_world ''pkgA'')
                ''action_server.log''"
  have 1: "path_exists example_world (get_action_package_path example_world ''pkgA'')"
    by (simp add: example_simps)
  have 2: "find_available_port (socket_bind example_world) 8080 = Some (Inr 8081)"
    by (simp add: example_world_def example_port)
  have 3: "\<forall>j<2. quiet_tick example_world ?url ?log j"
    by (simp add: example_simps)
  have 4: "time_time example_world (Suc 2) - time_time example_world 0 > 60"
    by (simp add: example_simps)
  have "poll_log example_world ?url ?log (time_time example_world 0) 0 =
      poll_log example_world ?url ?log (time_time example_world 0) 2"
    using 3 by (rule poll_log_reach)
  also have "\<dots> = (case stop_action_server example_world ?url of
       (events, Inl e) \<Rightarrow> Some (events, Inl e)
     | (events, Inr _) \<Rightarrow>
         Some (events, Inr (timed_out_message (child_stdout example_world)
                              (child_stderr example_world))))"
    using 4 by (rule poll_log_timeout)
  also have "stop_action_server example_world ?url =
      ([Http_post (?url @ ''/api/shutdown'') [(''Content-Type'', ''application/json'')]],
       Inl MaxRetryError)"
    by (simp add: stop_action_server_def Let_def example_world_def)
  finally have "poll_log example_world ?url ?log (time_time example_world 0) 0 =
      Some ([Http_post (?url @ ''/api/shutdown'') [(''Content-Type'', ''application/json'')]],
            Inl MaxRetryError)"
    by simp
  then show ?thesis
    using 1 2 by (simp add: start_action_server_spawned example_simps shutdown_requests_def)
qed

text \<open>
  Where the shutdown request is answered, or breaks with the exception that the handler
  catches, the call does what is specified.
\<close>

lemma start_action_server_timed_out_handled:
  fixes w :: world and name secrets :: string and port :: int
  defines "full \<equiv> get_action_package_path w name"
  defines "url \<equiv> ''http://localhost:'' @ str_int port"
  defines "log_path \<equiv> pathlib_join w full ''action_server.log''"
  assumes "path_exists w full"
    and "find_available_port (socket_bind w) 8080 = Some (Inr port)"
    and "\<forall>j<k. quiet_tick w url log_path j"
    and "time_time w (Suc k) - time_time w 0 > 60"
    and "snd (stop_action_server w url) = Inr answer"
  shows "start_action_server w name secrets =
      ([Popen (start_command w full port secrets) (creationflags w),
        Http_post (url @ ''/api/shutdown'') [(''Content-Type'', ''application/json'')]],
       Some (Inr (''Process timed out.'' @ [CHR 0x0A, CHR 0x0A] @ ''Stdout:'' @ [CHR 0x0A] @
                  child_stdout w @
                  [CHR 0x0A, CHR 0x0A] @ ''Stderr:'' @ [CHR 0x0A] @ child_stderr w)))"
proof -
  have st: "stop_action_server w url =
      ([Http_post (url @ ''/api/shutdown'') [(''Content-Type'', ''application/json'')]], Inr answer)"
    using assms(8) stop_action_server_events [of w url] by (simp add: prod_eq_iff)
  have "poll_log w url log_path (time_time w 0) k =
      Some ([Http_post (url @ ''/api/shutdown'') [(''Content-Type'', ''application/json'')]],
            Inr (timed_out_message (child_stdout w) (child_stderr w)))"
    using assms(7) st by (simp add: poll_log_timeout)
  with assms(6) have "poll_log w url log_path (time_time w 0) 0 =
      Some ([Http_post (url @ ''/api/shutdown'') [(''Content-Type'', ''application/json'')]],
            Inr (timed_out_message (child_stdout w) (child_stderr w)))"
    by (simp add: poll_log_reach)
  then show ?thesis
    using assms(4,5) unfolding full_def url_def log_path_def
    by (simp add: start_action_server_spawned timed_out_message_def stream_block_def)
qed

text \<open>
  C5. From a starting port number (not negative), given that some port at or above it is
  free, the allocator returns the smallest free port at or above the start: the start
  itself when it is free, a strictly greater port when the start is taken. "Free" is:
  the bind succeeds.
\<close>

theorem find_available_port_least:
  fixes start p :: int
  assumes "0 \<le> start" and "start \<le> p" and "s_bind os p = Inr ()"
  shows "\<exists>q. find_available_port os start = Some (Inr q) \<and> start \<le> q \<and> s_bind os q = Inr () \<and>
           (\<forall>r. start \<le> r \<and> s_bind os r = Inr () \<longrightarrow> q \<le> r) \<and>
           (s_bind os start = Inr () \<longrightarrow> q = start) \<and>
           (s_bind os start = Inl SocketError \<longrightarrow> start < q)"
proof -
  from assms obtain q where q: "start \<le> q" "s_bind os q = Inr ()"
    and below: "\<forall>r. start \<le> r \<and> r < q \<longrightarrow> s_bind os r = Inl SocketError"
    using least_free_port [of start p os] by blast
  have ret: "find_available_port os start = Some (Inr q)"
    using q below by (intro find_available_port_first) simp_all
  have least: "q \<le> r" if "start \<le> r" "s_bind os r = Inr ()" for r
  proof (rule ccontr)
    assume "\<not> q \<le> r"
    with that(1) below have "s_bind os r = Inl SocketError" by simp
    with that(2) show False by simp
  qed
  have "q = start" if "s_bind os start = Inr ()"
    using least [of start] that q(1) by simp
  moreover have "start < q" if "s_bind os start = Inl SocketError"
  proof -
    from that q(2) have "q \<noteq> start" by auto
    with q(1) show ?thesis by simp
  qed
  ultimately show ?thesis
    using ret q least by blast
qed

theorem find_available_port_least_witness:
  "find_available_port (\<lambda>p. if p = 8080 \<or> p = 8081 then Socket_error else Bind_ok) 8080
     = Some (Inr 8082)
   \<and> find_available_port (\<lambda>p. if p = 8080 \<or> p = 8081 then Socket_error else Bind_ok) 8082
     = Some (Inr 8082)"
proof -
  let ?os = "\<lambda>p::int. if p = 8080 \<or> p = 8081 then Socket_error else Bind_ok"
  have free: "s_bind ?os 8090 = Inr ()" by (simp add: s_bind_def)
  obtain q where q: "find_available_port ?os 8080 = Some (Inr q)" "s_bind ?os q = Inr ()"
      "8080 \<le> q" "\<forall>r. 8080 \<le> r \<and> s_bind ?os r = Inr () \<longrightarrow> q \<le> r"
    using find_available_port_least [of 8080 8090 ?os] free by auto
  have "s_bind ?os 8082 = Inr ()" by (simp add: s_bind_def)
  with q(4) have "q \<le> 8082" by simp
  moreover from q(2) have "q \<noteq> 8080 \<and> q \<noteq> 8081" by (auto simp: s_bind_def split: if_splits)
  ultimately have "q = 8082" using q(3) by arith
  with q(1) have first: "find_available_port ?os 8080 = Some (Inr 8082)" by simp
  obtain q' where q': "find_available_port ?os 8082 = Some (Inr q')"
      "s_bind ?os 8082 = Inr () \<longrightarrow> q' = 8082"
    using find_available_port_least [of 8082 8090 ?os] free by auto
  then have "find_available_port ?os 8082 = Some (Inr 8082)" by (simp add: s_bind_def)
  with first show ?thesis by simp
qed

text \<open>
  C6. The specification: the scan terminates if and only if some port at or above the start is
  free, and never terminates otherwise. The loop has no cap of its own, but \<^verbatim>\<open>bind\<close>
  raises \<open>OverflowError\<close> for a number above 65535 and the handler catches
  \<^verbatim>\<open>socket.error\<close> only: with every port from 8080 to 65535 taken, no port is free and
  yet the scan ends, at 65536, with that exception.
\<close>

theorem find_available_port_all_taken:
  "\<not> (\<exists>p\<ge>8080. s_bind (\<lambda>p. Socket_error) p = Inr ())
   \<and> find_available_port (\<lambda>p. Socket_error) 8080 = Some (Inl OverflowError)
   \<and> find_available_port (\<lambda>p. Socket_error) 8080 \<noteq> None"
proof -
  have "find_available_port (\<lambda>p. Socket_error) 8080 = Some (Inl OverflowError)"
    by (rule find_available_port_exhausted) simp_all
  moreover have "s_bind (\<lambda>p. Socket_error) p \<noteq> Inr ()" for p
    by (simp add: s_bind_def)
  ultimately show ?thesis by simp
qed

text \<open>
  C6, amended. The scan always terminates. It returns a port (a free one at or above the
  start) if and only if the start is not negative and some port at or above it is free;
  in every other case it ends with the \<open>OverflowError\<close> of \<^verbatim>\<open>bind\<close>, which the loop does
  not catch.
\<close>

theorem find_available_port_terminates:
  fixes start :: int
  shows "(\<exists>r. find_available_port os start = Some r)
       \<and> ((\<exists>q. find_available_port os start = Some (Inr q) \<and> start \<le> q \<and> s_bind os q = Inr ())
            \<longleftrightarrow> (0 \<le> start \<and> (\<exists>p\<ge>start. s_bind os p = Inr ())))
       \<and> (find_available_port os start = Some (Inl OverflowError)
            \<longleftrightarrow> \<not> (0 \<le> start \<and> (\<exists>p\<ge>start. s_bind os p = Inr ())))"
proof -
  let ?free = "0 \<le> start \<and> (\<exists>p\<ge>start. s_bind os p = Inr ())"
  have ends: "\<exists>r. find_available_port os start = Some r"
    by (rule find_available_port_ends)
  have ret: "\<exists>q. find_available_port os start = Some (Inr q)" if ?free
    using that find_available_port_returns [of start _ os] by blast
  have free: "start \<le> q \<and> s_bind os q = Inr () \<and> 0 \<le> start"
    if "find_available_port os start = Some (Inr q)" for q
    using that find_available_port_sound find_available_port_returns_nonneg by blast
  have first: "(\<exists>q. find_available_port os start = Some (Inr q) \<and> start \<le> q \<and> s_bind os q = Inr ())
      \<longleftrightarrow> ?free"
    using ret free by blast
  have second: "find_available_port os start = Some (Inl OverflowError) \<longleftrightarrow> \<not> ?free"
  proof
    assume "find_available_port os start = Some (Inl OverflowError)"
    then show "\<not> ?free" using ret by auto
  next
    assume none: "\<not> ?free"
    from ends obtain r where r: "find_available_port os start = Some r" ..
    show "find_available_port os start = Some (Inl OverflowError)"
    proof (cases r)
      case (Inl e)
      with r have "e = OverflowError" using find_available_port_raised by blast
      with r Inl show ?thesis by simp
    next
      case (Inr q)
      with r free have ?free by blast
      with none show ?thesis by simp
    qed
  qed
  from ends first second show ?thesis by blast
qed

theorem find_available_port_terminates_witness:
  "(\<exists>q. find_available_port (\<lambda>p. if p = 8082 then Bind_ok else Socket_error) 8080 = Some (Inr q)
        \<and> 8080 \<le> q \<and> s_bind (\<lambda>p. if p = 8082 then Bind_ok else Socket_error) q = Inr ())
   \<and> find_available_port (\<lambda>p. Socket_error) 65535 = Some (Inl OverflowError)"
proof -
  let ?os = "\<lambda>p::int. if p = 8082 then Bind_ok else Socket_error"
  have "\<exists>p\<ge>8080. s_bind ?os p = Inr ()"
    by (intro exI [of _ "8082::int"]) (simp add: s_bind_def)
  then have "\<exists>q. find_available_port ?os 8080 = Some (Inr q) \<and> 8080 \<le> q \<and> s_bind ?os q = Inr ()"
    using find_available_port_terminates [of ?os 8080] by simp
  moreover have "\<not> (\<exists>p\<ge>65535. s_bind (\<lambda>p. Socket_error) p = Inr ())"
    by (simp add: s_bind_def)
  then have "find_available_port (\<lambda>p. Socket_error) 65535 = Some (Inl OverflowError)"
    using find_available_port_terminates [of "\<lambda>p. Socket_error" 65535] by simp
  ultimately show ?thesis by simp
qed

text \<open>
  C7. The specification: when the connection to the server cannot be made,
  \<^verbatim>\<open>stop_action_server\<close> returns the "could not connect" message and raises nothing.
  The handler is \<^verbatim>\<open>except ConnectionError\<close> with urllib3's \<^verbatim>\<open>ConnectionError\<close>, an
  alias of \<open>ProtocolError\<close>; a request to an address where nothing listens ends with
  \<open>MaxRetryError\<close>, which is no \<open>ProtocolError\<close>. In the example world the function sends
  its one POST and raises. (For an answered request the status decides as specified, and a \<open>ProtocolError\<close> gives the message: see the facts about
  \<^verbatim>\<open>stop_action_server\<close> above.)
\<close>

theorem stop_action_server_unreachable:
  "stop_action_server example_world ''http://localhost:8081'' =
     ([Http_post ''http://localhost:8081/api/shutdown'' [(''Content-Type'', ''application/json'')]],
      Inl MaxRetryError)"
  by (simp add: stop_action_server_def example_world_def Let_def)

text \<open>
  C8. With an existing package directory and a port found by the allocator, the first
  effect of the call is the spawn of the helper: the interpreter, the helper script, and
  then exactly three arguments in this order: the package directory, the port written in
  decimal, and the secrets string as it was given. Nothing else is spawned.
\<close>

theorem start_action_server_spawn_arguments:
  fixes w :: world and name secrets :: string and port :: int
  defines "full \<equiv> get_action_package_path w name"
  assumes "path_exists w full"
    and "find_available_port (socket_bind w) 8080 = Some (Inr port)"
  shows "(\<exists>rest. fst (start_action_server w name secrets) =
            Popen [sys_executable w,
                   pathlib_join w (module_dir w) ''start_action_server.py'',
                   full, str_int port, secrets] (creationflags w) # rest
          \<and> (\<forall>e\<in>set rest. case e of Popen _ _ \<Rightarrow> False | Http_post _ _ \<Rightarrow> True))
    \<and> 8080 \<le> port \<and> decimal_value (str_int port) = nat port"
proof -
  let ?url = "''http://localhost:'' @ str_int port"
  let ?poll = "poll_log w ?url (pathlib_join w full ''action_server.log'') (time_time w 0) 0"
  let ?spawn = "Popen (start_command w full port secrets) (creationflags w)"
  have unfold: "start_action_server w name secrets =
    (case ?poll of None \<Rightarrow> ([?spawn], None)
     | Some (events, outcome) \<Rightarrow> (?spawn # events, Some outcome))"
    using assms(2,3) unfolding full_def by (rule start_action_server_spawned)
  have "\<exists>rest. fst (start_action_server w name secrets) = ?spawn # rest
      \<and> (\<forall>e\<in>set rest. case e of Popen _ _ \<Rightarrow> False | Http_post _ _ \<Rightarrow> True)"
  proof (cases ?poll)
    case None
    with unfold show ?thesis by simp
  next
    case (Some r)
    then have "fst r = [] \<or> fst r = fst (stop_action_server w ?url)"
      by (rule poll_log_events)
    then have "\<forall>e\<in>set (fst r). case e of Popen _ _ \<Rightarrow> False | Http_post _ _ \<Rightarrow> True"
      by (auto simp: stop_action_server_def Let_def)
    with Some unfold show ?thesis
      by (cases r) simp
  qed
  moreover have port: "8080 \<le> port"
    using assms(3) find_available_port_sound by blast
  moreover from port have "decimal_value (str_int port) = nat port"
    by (intro str_int_decimal) simp
  ultimately show ?thesis
    by (simp add: start_command_def)
qed

theorem start_action_server_spawn_arguments_witness:
  "(\<exists>rest. fst (start_action_server example_world ''pkgA'' ''{token: t0p}'') =
      Popen [''python3'', ''/opt/bootstrapper/start_action_server.py'',
             ''/home/u/actions_bootstrapper/pkgA'', ''8081'', ''{token: t0p}''] 0 # rest)
   \<and> decimal_value ''8081'' = 8081"
proof -
  have 1: "path_exists example_world (get_action_package_path example_world ''pkgA'')"
    by (simp add: example_simps)
  have 2: "find_available_port (socket_bind example_world) 8080 = Some (Inr 8081)"
    by (simp add: example_world_def example_port)
  from start_action_server_spawn_arguments [OF 1 2, of "''{token: t0p}''"]
  show ?thesis
    by (auto simp: example_simps)
qed

text \<open>
  C9. A line that contains both the expected URL and the error marker counts as success:
  the scan tests the URL first, so from that line on it returns the success message, and
  so does the call when no earlier line of that iteration held either marker.
\<close>

theorem start_action_server_url_before_marker:
  fixes w :: world and name secrets :: string and port :: int
  defines "full \<equiv> get_action_package_path w name"
  defines "url \<equiv> ''http://localhost:'' @ str_int port"
  defines "log_path \<equiv> pathlib_join w full ''action_server.log''"
  assumes "path_exists w full"
    and "find_available_port (socket_bind w) 8080 = Some (Inr port)"
    and "\<forall>j<k. quiet_tick w url log_path j"
    and "time_time w (Suc k) - time_time w 0 \<le> 60"
    and "log_lines w log_path k = Some (pre @ line # post)"
    and "\<forall>l\<in>set pre. \<not> str_in url l \<and> \<not> str_in error_marker l"
    and "str_in url line \<and> str_in error_marker line"
  shows "scan_lines w url (line # post) = Some (''Action Server started at '' @ url)
    \<and> start_action_server w name secrets =
        ([Popen (start_command w full port secrets) (creationflags w)],
         Some (Inr (''Action Server started at '' @ url)))"
proof -
  have line: "scan_lines w url (line # post) = Some (started_message url)"
    using assms(10) by simp
  have "scan_lines w url (pre @ line # post) = Some (started_message url)"
    using assms(9,10) by (intro scan_lines_started) simp_all
  with assms(7,8) have "poll_log w url log_path (time_time w 0) k = Some ([], Inr (started_message url))"
    by (intro poll_log_decided)
  with assms(6) have "poll_log w url log_path (time_time w 0) 0 = Some ([], Inr (started_message url))"
    by (simp add: poll_log_reach)
  then have "start_action_server w name secrets =
      ([Popen (start_command w full port secrets) (creationflags w)],
       Some (Inr (started_message url)))"
    using assms(4,5) unfolding full_def url_def log_path_def
    by (simp add: start_action_server_spawned)
  with line show ?thesis
    by (simp add: started_message_def)
qed

theorem start_action_server_url_before_marker_witness:
  "start_action_server both_world ''pkgA'' ''{}'' =
     ([Popen [''python3'', ''/opt/bootstrapper/start_action_server.py'',
              ''/home/u/actions_bootstrapper/pkgA'', ''8081'', ''{}''] 0],
      Some (Inr ''Action Server started at http://localhost:8081''))"
proof -
  have 1: "path_exists both_world (get_action_package_path both_world ''pkgA'')"
    by (simp add: both_world_def example_simps)
  have 2: "find_available_port (socket_bind both_world) 8080 = Some (Inr 8081)"
    by (simp add: both_world_def example_world_def example_port)
  have 3: "\<forall>j<1. quiet_tick both_world (''http://localhost:'' @ str_int 8081)
      (pathlib_join both_world (get_action_package_path both_world ''pkgA'') ''action_server.log'') j"
    by (simp add: both_world_def example_simps)
  have 4: "time_time both_world (Suc 1) - time_time both_world 0 \<le> 60"
    by (simp add: both_world_def example_simps)
  have 5: "log_lines both_world
      (pathlib_join both_world (get_action_package_path both_world ''pkgA'') ''action_server.log'') 1
      = Some ([''starting''] @ ''Error executing action-server at http://localhost:8081'' # [])"
    by (simp add: both_world_def example_simps)
  have 6: "\<forall>l\<in>set [''starting'']. \<not> str_in (''http://localhost:'' @ str_int 8081) l
      \<and> \<not> str_in error_marker l"
    by (simp add: example_simps)
  have 7: "str_in (''http://localhost:'' @ str_int 8081)
        ''Error executing action-server at http://localhost:8081''
      \<and> str_in error_marker ''Error executing action-server at http://localhost:8081''"
    by (simp add: example_simps)
  from start_action_server_url_before_marker [OF 1 2 3 4 5 6 7, of "''{}''"] show ?thesis
    by (simp add: both_world_def example_simps)
qed

text \<open>
  C10. \<^verbatim>\<open>run_shell_command\<close> never hands a \<^verbatim>\<open>CalledProcessError\<close> to its caller:
  whatever the exit code of the command, the result is a response that carries the
  command's stdout followed by its stderr.
\<close>

theorem run_shell_command_returns_response:
  "run_shell_command w cmd cwd =
     Inr (Response_result (stdout (subprocess_run w cmd cwd) @ stderr (subprocess_run w cmd cwd)))
   \<and> (\<forall>e. run_shell_command w cmd cwd \<noteq> Inl e)"
  by (simp add: run_shell_command_def check_returncode_def Let_def)

end
